theory Spec2Isabelle
  imports Main "HOL-Library.Word"
begin

unbundle bit_operations_syntax

section \<open>Machine types and slices\<close>

type_synonym byte = "8 word"
type_synonym uint16 = "16 word"
type_synonym uint32 = "32 word"

text \<open>
  Go's \<open>int\<close> is a signed integer of 64 bits on a 64-bit platform: a 64-bit word whose
  arithmetic wraps around, compared as a signed value (\<open>\<le>s\<close>).
\<close>

type_synonym go_int = "64 word"

text \<open>A Go slice access outside the slice panics; the panic is the error value.\<close>

datatype error = IndexOutOfRange | EOF | UnexpectedEOF | ShortWrite

definition make_bytes :: "nat \<Rightarrow> byte list" where
  \<comment> \<open>Go's \<open>make([]byte, n)\<close>: n zero bytes.\<close>
  "make_bytes n = replicate n 0"

definition index :: "byte list \<Rightarrow> nat \<Rightarrow> error + byte" where
  \<comment> \<open>\<open>xs[i]\<close> as a value.\<close>
  "index xs i = (if i < length xs then Inr (xs ! i) else Inl IndexOutOfRange)"

definition store :: "byte list \<Rightarrow> nat \<Rightarrow> byte \<Rightarrow> error + byte list" where
  \<comment> \<open>\<open>xs[i] = v\<close>.\<close>
  "store xs i v = (if i < length xs then Inr (xs[i := v]) else Inl IndexOutOfRange)"

definition copy :: "byte list \<Rightarrow> byte list \<Rightarrow> byte list" where
  \<comment> \<open>Go's builtin \<open>copy(dst, src)\<close>: the first \<open>min (len dst) (len src)\<close> elements of
      \<open>src\<close> overwrite the front of \<open>dst\<close>; the result is the new \<open>dst\<close>.\<close>
  "copy dst src =
     take (min (length dst) (length src)) src @ drop (min (length dst) (length src)) dst"

section \<open>Cartridge banking controllers (package cart)\<close>

text \<open>
  Modelled from the spec: the declaration of \<open>BaseMBC\<close> is not among the sources. Its
  fields are the ones the four constructors and methods use: the ROM bytes, the selected
  ROM bank (a \<open>uint32\<close>, as the arithmetic on it shows), the RAM buffer and the
  RAM-enabled flag.
\<close>

record BaseMBC =
  Rom :: "byte list"
  RomBank :: uint32
  Ram :: "byte list"
  RamEnabled :: bool

subsection \<open>MBC1\<close>

record MBC1 = BaseMBC +
  RamBank1 :: uint32
  RomBanking :: bool

definition NewMBC1 :: "byte list \<Rightarrow> MBC1" where
  "NewMBC1 data =
     \<lparr>Rom = data, RomBank = 1, Ram = make_bytes 0x8000, RamEnabled = False,
      RamBank1 = 0, RomBanking = False\<rparr>"

definition MBC1_Read :: "MBC1 \<Rightarrow> uint16 \<Rightarrow> error + byte" where
  "MBC1_Read r address =
     (if address < 0x4000 then index (Rom r) (unat address)
      else if address < 0x8000 then
        index (Rom r) (unat ((ucast (address - 0x4000) :: uint32) + RomBank r * 0x4000))
      else index (Ram r) (unat (0x2000 * RamBank1 r + (ucast (address - 0xA000) :: uint32))))"

definition updateRomBankIfZero :: "MBC1 \<Rightarrow> MBC1" where
  "updateRomBankIfZero r =
     (if RomBank r = 0x00 \<or> RomBank r = 0x20 \<or> RomBank r = 0x40 \<or> RomBank r = 0x60
      then r\<lparr>RomBank := RomBank r + 1\<rparr> else r)"

definition MBC1_WriteROM :: "MBC1 \<Rightarrow> uint16 \<Rightarrow> byte \<Rightarrow> MBC1" where
  "MBC1_WriteROM r address val =
     (if address < 0x2000 then
        (if val AND 0xF = 0xA then r\<lparr>RamEnabled := True\<rparr>
         else if val AND 0xF = 0x0 then r\<lparr>RamEnabled := False\<rparr>
         else r)
      else if address < 0x4000 then
        updateRomBankIfZero (r\<lparr>RomBank := (RomBank r AND 0xe0) OR ucast (val AND 0x1f)\<rparr>)
      else if address < 0x6000 then
        (if RomBanking r then
           updateRomBankIfZero (r\<lparr>RomBank := (RomBank r AND 0x1F) OR ucast (val AND 0xe0)\<rparr>)
         else r\<lparr>RamBank1 := ucast (val AND 0x3)\<rparr>)
      else if address < 0x8000 then
        (let r' = r\<lparr>RomBanking := (val AND 0x1 = 0x00)\<rparr>
         in if RomBanking r' then r'\<lparr>RamBank1 := 0\<rparr>
            else r'\<lparr>RomBank := RomBank r' AND 0x1F\<rparr>)
      else r)"

definition MBC1_WriteRAM :: "MBC1 \<Rightarrow> uint16 \<Rightarrow> byte \<Rightarrow> error + MBC1" where
  "MBC1_WriteRAM r address val =
     (if RamEnabled r then
        (case store (Ram r)
                (unat (0x2000 * RamBank1 r + (ucast (address - 0xA000) :: uint32))) val of
           Inl e \<Rightarrow> Inl e
         | Inr ram \<Rightarrow> Inr (r\<lparr>Ram := ram\<rparr>))
      else Inr r)"

subsection \<open>MBC2\<close>

text \<open>The Go struct \<open>MBC2\<close> embeds \<open>BaseMBC\<close> and adds no field.\<close>

type_synonym MBC2 = BaseMBC

definition NewMBC2 :: "byte list \<Rightarrow> MBC2" where
  "NewMBC2 data = \<lparr>Rom = data, RomBank = 1, Ram = make_bytes 0x2000, RamEnabled = False\<rparr>"

definition MBC2_Read :: "MBC2 \<Rightarrow> uint16 \<Rightarrow> error + byte" where
  "MBC2_Read r address =
     (if address < 0x4000 then index (Rom r) (unat address)
      else if address < 0x8000 then
        index (Rom r) (unat ((ucast (address - 0x4000) :: uint32) + RomBank r * 0x4000))
      else index (Ram r) (unat (address - 0xA000)))"

definition MBC2_WriteROM :: "MBC2 \<Rightarrow> uint16 \<Rightarrow> byte \<Rightarrow> MBC2" where
  "MBC2_WriteROM r address val =
     (if address < 0x2000 then
        (if address AND 0x100 = 0 then
           (if val AND 0xF = 0xA then r\<lparr>RamEnabled := True\<rparr>
            else if val AND 0xF = 0x0 then r\<lparr>RamEnabled := False\<rparr>
            else r)
         else r)
      else if address < 0x4000 then
        (if address AND 0x100 = 0x100 then
           (let r' = r\<lparr>RomBank := ucast (val AND 0xF)\<rparr>
            in if RomBank r' = 0x00 \<or> RomBank r' = 0x20 \<or> RomBank r' = 0x40 \<or> RomBank r' = 0x60
               then r'\<lparr>RomBank := RomBank r' + 1\<rparr> else r')
         else r)
      else r)"

definition MBC2_WriteRAM :: "MBC2 \<Rightarrow> uint16 \<Rightarrow> byte \<Rightarrow> error + MBC2" where
  "MBC2_WriteRAM r address val =
     (if RamEnabled r then
        (case store (Ram r) (unat (address - 0xA000)) (val AND 0xF) of
           Inl e \<Rightarrow> Inl e
         | Inr ram \<Rightarrow> Inr (r\<lparr>Ram := ram\<rparr>))
      else Inr r)"

subsection \<open>MBC5\<close>

record MBC5 = BaseMBC +
  RamBank5 :: uint32

definition NewMBC5 :: "byte list \<Rightarrow> MBC5" where
  "NewMBC5 data =
     \<lparr>Rom = data, RomBank = 1, Ram = make_bytes 0x20000, RamEnabled = False, RamBank5 = 0\<rparr>"

definition MBC5_Read :: "MBC5 \<Rightarrow> uint16 \<Rightarrow> error + byte" where
  "MBC5_Read r address =
     (if address < 0x4000 then index (Rom r) (unat address)
      else if address < 0x8000 then
        index (Rom r) (unat ((ucast (address - 0x4000) :: uint32) + RomBank r * 0x4000))
      else index (Ram r) (unat (0x2000 * RamBank5 r + (ucast (address - 0xA000) :: uint32))))"

definition MBC5_WriteROM :: "MBC5 \<Rightarrow> uint16 \<Rightarrow> byte \<Rightarrow> MBC5" where
  "MBC5_WriteROM r address val =
     (if address < 0x2000 then
        (if val AND 0xF = 0xA then r\<lparr>RamEnabled := True\<rparr>
         else if val AND 0xF = 0x0 then r\<lparr>RamEnabled := False\<rparr>
         else r)
      else if address < 0x3000 then r\<lparr>RomBank := (RomBank r AND 0x100) OR ucast val\<rparr>
      else if address < 0x4000 then
        r\<lparr>RomBank := (RomBank r AND 0xFF) OR push_bit 8 (ucast (val AND 0x01))\<rparr>
      else if address < 0x6000 then r\<lparr>RamBank5 := ucast (val AND 0xF)\<rparr>
      else r)"

definition MBC5_WriteRAM :: "MBC5 \<Rightarrow> uint16 \<Rightarrow> byte \<Rightarrow> error + MBC5" where
  "MBC5_WriteRAM r address val =
     (if RamEnabled r then
        (case store (Ram r)
                (unat (0x2000 * RamBank5 r + (ucast (address - 0xA000) :: uint32))) val of
           Inl e \<Rightarrow> Inl e
         | Inr ram \<Rightarrow> Inr (r\<lparr>Ram := ram\<rparr>))
      else Inr r)"

subsection \<open>MBC3\<close>

record MBC3 = BaseMBC +
  RamBank3 :: uint32
  Rtc :: "byte list"
  LatchedRtc :: "byte list"
  Latched :: bool

definition NewMBC3 :: "byte list \<Rightarrow> MBC3" where
  "NewMBC3 data =
     \<lparr>Rom = data, RomBank = 1, Ram = make_bytes 0x8000, RamEnabled = False,
      RamBank3 = 0, Rtc = make_bytes 0x10, LatchedRtc = make_bytes 0x10, Latched = False\<rparr>"

definition MBC3_Read :: "MBC3 \<Rightarrow> uint16 \<Rightarrow> error + byte" where
  "MBC3_Read r address =
     (if address < 0x4000 then index (Rom r) (unat address)
      else if address < 0x8000 then
        index (Rom r) (unat ((ucast (address - 0x4000) :: uint32) + RomBank r * 0x4000))
      else if RamBank3 r \<ge> 0x4 then
        (if Latched r then index (LatchedRtc r) (unat (RamBank3 r))
         else index (Rtc r) (unat (RamBank3 r)))
      else index (Ram r) (unat (0x2000 * RamBank3 r + (ucast (address - 0xA000) :: uint32))))"

definition MBC3_WriteROM :: "MBC3 \<Rightarrow> uint16 \<Rightarrow> byte \<Rightarrow> MBC3" where
  "MBC3_WriteROM r address val =
     (if address < 0x2000 then r\<lparr>RamEnabled := (val AND 0xA \<noteq> 0)\<rparr>
      else if address < 0x4000 then
        (let r' = r\<lparr>RomBank := ucast (val AND 0x7F)\<rparr>
         in if RomBank r' = 0x00 then r'\<lparr>RomBank := RomBank r' + 1\<rparr> else r')
      else if address < 0x6000 then r\<lparr>RamBank3 := ucast val\<rparr>
      else if address < 0x8000 then
        (if val = 0x1 then r\<lparr>Latched := False\<rparr>
         else if val = 0x0 then r\<lparr>Latched := True, Rtc := copy (Rtc r) (LatchedRtc r)\<rparr>
         else r)
      else r)"

definition MBC3_WriteRAM :: "MBC3 \<Rightarrow> uint16 \<Rightarrow> byte \<Rightarrow> error + MBC3" where
  "MBC3_WriteRAM r address val =
     (if RamEnabled r then
        (if RamBank3 r \<ge> 0x4 then
           (case store (Rtc r) (unat (RamBank3 r)) val of
              Inl e \<Rightarrow> Inl e
            | Inr rtc \<Rightarrow> Inr (r\<lparr>Rtc := rtc\<rparr>))
         else
           (case store (Ram r)
                   (unat (0x2000 * RamBank3 r + (ucast (address - 0xA000) :: uint32))) val of
              Inl e \<Rightarrow> Inl e
            | Inr ram \<Rightarrow> Inr (r\<lparr>Ram := ram\<rparr>)))
      else Inr r)"

section \<open>The BankingController interface\<close>

text \<open>
  The Go interface \<open>BankingController\<close> with its four implementations, as a sum type;
  a method call dispatches on the variant.
\<close>

datatype cart = CartMBC1 MBC1 | CartMBC2 MBC2 | CartMBC3 MBC3 | CartMBC5 MBC5

fun Read :: "cart \<Rightarrow> uint16 \<Rightarrow> error + byte" where
  "Read (CartMBC1 r) address = MBC1_Read r address"
| "Read (CartMBC2 r) address = MBC2_Read r address"
| "Read (CartMBC3 r) address = MBC3_Read r address"
| "Read (CartMBC5 r) address = MBC5_Read r address"

fun WriteROM :: "cart \<Rightarrow> uint16 \<Rightarrow> byte \<Rightarrow> cart" where
  "WriteROM (CartMBC1 r) address val = CartMBC1 (MBC1_WriteROM r address val)"
| "WriteROM (CartMBC2 r) address val = CartMBC2 (MBC2_WriteROM r address val)"
| "WriteROM (CartMBC3 r) address val = CartMBC3 (MBC3_WriteROM r address val)"
| "WriteROM (CartMBC5 r) address val = CartMBC5 (MBC5_WriteROM r address val)"

fun WriteRAM :: "cart \<Rightarrow> uint16 \<Rightarrow> byte \<Rightarrow> error + cart" where
  "WriteRAM (CartMBC1 r) address val = map_sum id CartMBC1 (MBC1_WriteRAM r address val)"
| "WriteRAM (CartMBC2 r) address val = map_sum id CartMBC2 (MBC2_WriteRAM r address val)"
| "WriteRAM (CartMBC3 r) address val = map_sum id CartMBC3 (MBC3_WriteRAM r address val)"
| "WriteRAM (CartMBC5 r) address val = map_sum id CartMBC5 (MBC5_WriteRAM r address val)"

text \<open>
  A sequence of calls on one controller. A call that panics ends the sequence with the
  error; a \<open>Read\<close> that returns leaves the controller as it was.
\<close>

datatype call = CallWriteROM uint16 byte | CallWriteRAM uint16 byte | CallRead uint16

fun do_call :: "cart \<Rightarrow> call \<Rightarrow> error + cart" where
  "do_call c (CallWriteROM address val) = Inr (WriteROM c address val)"
| "do_call c (CallWriteRAM address val) = WriteRAM c address val"
| "do_call c (CallRead address) =
     (case Read c address of Inl e \<Rightarrow> Inl e | Inr b \<Rightarrow> Inr c)"

fun run :: "cart \<Rightarrow> call list \<Rightarrow> error + cart" where
  "run c [] = Inr c"
| "run c (x # xs) = (case do_call c x of Inl e \<Rightarrow> Inl e | Inr c' \<Rightarrow> run c' xs)"

definition read_after :: "cart \<Rightarrow> call list \<Rightarrow> uint16 \<Rightarrow> error + byte" where
  \<comment> \<open>The byte a \<open>Read\<close> returns once the calls have been made.\<close>
  "read_after c xs address =
     (case run c xs of Inl e \<Rightarrow> Inl e | Inr c' \<Rightarrow> Read c' address)"

section \<open>The machine (package gb)\<close>

subsection \<open>Bits, registers and the address space\<close>

text \<open>
  Modelled from the spec: package \<open>bits\<close> is not among the sources. \<open>Test\<close> reads one bit
  of a byte ("flag bit set"), \<open>Set\<close> sets it and \<open>Reset\<close> clears it ("clear its request
  bit"), by shifting and masking.
\<close>

definition bits_Test :: "byte \<Rightarrow> nat \<Rightarrow> bool" where
  "bits_Test val i = (drop_bit i val AND 1 = 1)"

definition bits_Set :: "byte \<Rightarrow> nat \<Rightarrow> byte" where
  "bits_Set val i = val OR push_bit i 1"

definition bits_Reset :: "byte \<Rightarrow> nat \<Rightarrow> byte" where
  "bits_Reset val i = val AND NOT (push_bit i 1)"

text \<open>
  Modelled from the spec: the declaration of \<open>CPU\<close> is not among the sources. It holds the
  four register pairs, the program counter and the stack pointer (six 16-bit values;
  \<open>HiLo()\<close> reads a pair and \<open>Set\<close> stores it) and the divider accumulator.
\<close>

record CPU =
  AF :: uint16
  BC :: uint16
  DE :: uint16
  HL :: uint16
  PC :: uint16
  SP :: uint16
  Divider :: go_int

text \<open>
  Modelled from the spec: the declaration of \<open>Memory\<close> is not among the sources. The
  machine indexes its array \<open>HighRAM\<close> (the 0x100 bytes of 0xFF00 to 0xFFFF) directly;
  an array of 0x100 bytes is a function from an 8-bit index. Whatever else the address
  space holds (work RAM, video RAM, the cartridge) is the record's extension.
\<close>

record Memory =
  HighRAM :: "byte \<Rightarrow> byte"

text \<open>
  Modelled from the spec: the methods of \<open>Memory\<close> that the machine calls are not among
  the sources either. They are parameters of the model: \<open>Mem_Write\<close> and \<open>Mem_Read\<close> route
  an access to RAM, an I/O register or the cartridge, \<open>Mem_ReadHighRam\<close> reads an I/O
  register, \<open>Mem_SaveState\<close> and \<open>Mem_LoadState\<close> serialise the address space (into
  a sink and from a byte stream, see below). A call is
  taken to change the address space only. What a theorem needs of them is a hypothesis of
  that theorem.
\<close>

record 'x MemoryMethods =
  Mem_Write :: "'x Memory_scheme \<Rightarrow> uint16 \<Rightarrow> byte \<Rightarrow> 'x Memory_scheme"
  Mem_Read :: "'x Memory_scheme \<Rightarrow> uint16 \<Rightarrow> byte"
  Mem_ReadHighRam :: "'x Memory_scheme \<Rightarrow> uint16 \<Rightarrow> byte"
  Mem_SaveState :: "'x Memory_scheme \<Rightarrow> byte list \<times> nat \<Rightarrow> error + byte list \<times> nat"
  Mem_LoadState :: "'x Memory_scheme \<Rightarrow> byte list \<Rightarrow> 'x Memory_scheme \<times> error option"

text \<open>
  Modelled from the spec: the addresses of the divider and timer-counter registers
  (\<open>DIV\<close>, \<open>TIMA\<close>) are constants declared outside the sources; the spec gives 0xFF04
  and 0xFF05.
\<close>

definition DIV :: uint16 where
  "DIV = 0xFF04"

definition TIMA :: uint16 where
  "TIMA = 0xFF05"

text \<open>
  The fields of \<open>Gameboy\<close> that the timer, interrupt, stack and save-state code reads or
  writes.
\<close>

record 'x Gameboy =
  Memory :: "'x Memory_scheme"
  CPU :: CPU
  timerCounter :: go_int
  interruptsEnabling :: bool
  interruptsOn :: bool
  halted :: bool
  thisCpuTicks :: go_int

subsection \<open>Timers\<close>

definition dividerRegister :: "'x Gameboy \<Rightarrow> go_int \<Rightarrow> 'x Gameboy" where
  "dividerRegister gb cycles =
     (let gb1 = gb\<lparr>CPU := (CPU gb)\<lparr>Divider := Divider (CPU gb) + cycles\<rparr>\<rparr>
      in if 255 \<le>s Divider (CPU gb1) then
           gb1\<lparr>CPU := (CPU gb1)\<lparr>Divider := Divider (CPU gb1) - 255\<rparr>,
               Memory := (Memory gb1)\<lparr>HighRAM := (HighRAM (Memory gb1))
                 (ucast (DIV - 0xFF00) := HighRAM (Memory gb1) (ucast (DIV - 0xFF00)) + 1)\<rparr>\<rparr>
         else gb1)"

definition isClockEnabled :: "'x Gameboy \<Rightarrow> bool" where
  "isClockEnabled gb = bits_Test (HighRAM (Memory gb) 0x07) 2"

definition getClockFreq :: "'x Gameboy \<Rightarrow> byte" where
  "getClockFreq gb = HighRAM (Memory gb) 0x07 AND 0x3"

definition clockFreqCount :: "byte \<Rightarrow> go_int" where
  \<comment> \<open>the \<open>switch\<close> of \<open>getClockFreqCount\<close>\<close>
  "clockFreqCount f = (if f = 0 then 1024 else if f = 1 then 16 else if f = 2 then 64 else 256)"

definition getClockFreqCount :: "'x Gameboy \<Rightarrow> go_int" where
  "getClockFreqCount gb = clockFreqCount (getClockFreq gb)"

definition requestInterrupt :: "'x MemoryMethods \<Rightarrow> 'x Gameboy \<Rightarrow> nat \<Rightarrow> 'x Gameboy" where
  "requestInterrupt M gb interrupt =
     (let req = HighRAM (Memory gb) 0x0F OR 0xE0;
          req = bits_Set req interrupt
      in gb\<lparr>Memory := Mem_Write M (Memory gb) 0xFF0F req\<rparr>)"

text \<open>
  The loop of \<open>updateTimers\<close>. Its bound \<open>freq\<close> is read once, before the loop, from the
  frequency field \<open>f\<close> of the timer control; every value of the table is positive, which
  is why the loop ends.
\<close>

function timerLoop :: "'x MemoryMethods \<Rightarrow> byte \<Rightarrow> 'x Gameboy \<Rightarrow> 'x Gameboy" where
  "timerLoop M f gb =
     (if clockFreqCount f \<le>s timerCounter gb then
        (let gb1 = gb\<lparr>timerCounter := timerCounter gb - clockFreqCount f\<rparr>;
             tima = HighRAM (Memory gb1) 0x05
         in if tima = 0xFF then
              timerLoop M f (requestInterrupt M
                (gb1\<lparr>Memory := (Memory gb1)\<lparr>HighRAM := (HighRAM (Memory gb1))
                   (ucast (TIMA - 0xFF00) := HighRAM (Memory gb1) 0x06)\<rparr>\<rparr>) 2)
            else
              timerLoop M f
                (gb1\<lparr>Memory := (Memory gb1)\<lparr>HighRAM := (HighRAM (Memory gb1))
                   (ucast (TIMA - 0xFF00) := tima + 1)\<rparr>\<rparr>))
      else gb)"
  by pat_completeness auto
termination
proof -
  have dec: "0 < sint tc \<and> sint (tc - clockFreqCount f) < sint tc"
    if le: "clockFreqCount f \<le>s tc" for tc :: go_int and f :: byte
  proof -
    have pos: "0 < sint (clockFreqCount f)" "sint (clockFreqCount f) \<le> 1024"
      by (simp_all add: clockFreqCount_def)
    from le have c: "sint (clockFreqCount f) \<le> sint tc" by (simp add: word_sle_eq)
    have "sint tc < 2 ^ 63" using sint_lt [of tc] by simp
    with pos c have "sint (tc - clockFreqCount f) = sint tc - sint (clockFreqCount f)"
      by (simp add: sint_word_ariths signed_take_bit_int_eq_self)
    with pos c show ?thesis by simp
  qed
  show ?thesis
    by (relation "measure (\<lambda>(M, f, gb). nat (sint (timerCounter gb)))")
       (simp_all add: requestInterrupt_def Let_def dec)
qed

definition updateTimers :: "'x MemoryMethods \<Rightarrow> 'x Gameboy \<Rightarrow> go_int \<Rightarrow> 'x Gameboy" where
  "updateTimers M gb cycles =
     (let gb1 = dividerRegister gb cycles
      in if isClockEnabled gb1 then
           (let gb2 = gb1\<lparr>timerCounter := timerCounter gb1 + cycles\<rparr>
            in timerLoop M (getClockFreq gb2) gb2)
         else gb1)"

subsection \<open>The stack\<close>

definition pushStack :: "'x MemoryMethods \<Rightarrow> 'x Gameboy \<Rightarrow> uint16 \<Rightarrow> 'x Gameboy" where
  "pushStack M gb address =
     (let sp = SP (CPU gb);
          gb1 = gb\<lparr>Memory := Mem_Write M (Memory gb) (sp - 1)
                  (ucast (drop_bit 8 (address AND 0xFF00)))\<rparr>;
          gb2 = gb1\<lparr>Memory := Mem_Write M (Memory gb1) (sp - 2) (ucast (address AND 0xFF))\<rparr>
      in gb2\<lparr>CPU := (CPU gb2)\<lparr>SP := SP (CPU gb2) - 2\<rparr>\<rparr>)"

definition popStack :: "'x MemoryMethods \<Rightarrow> 'x Gameboy \<Rightarrow> uint16 \<times> 'x Gameboy" where
  "popStack M gb =
     (let sp = SP (CPU gb);
          byte1 = (ucast (Mem_Read M (Memory gb) sp) :: uint16);
          byte2 = push_bit 8 (ucast (Mem_Read M (Memory gb) (sp + 1)) :: uint16);
          gb1 = gb\<lparr>CPU := (CPU gb)\<lparr>SP := SP (CPU gb) + 2\<rparr>\<rparr>
      in (byte1 OR byte2, gb1))"

subsection \<open>Interrupts\<close>

definition interruptAddresses :: "nat \<rightharpoonup> uint16" where
  "interruptAddresses = [0 \<mapsto> 0x40, 1 \<mapsto> 0x48, 2 \<mapsto> 0x50, 3 \<mapsto> 0x58, 4 \<mapsto> 0x60]"

definition interruptAddress :: "nat \<Rightarrow> uint16" where
  \<comment> \<open>\<open>interruptAddresses[interrupt]\<close>: a key the Go map lacks reads as the zero value.\<close>
  "interruptAddress i = (case interruptAddresses i of None \<Rightarrow> 0 | Some a \<Rightarrow> a)"

definition serviceInterrupt :: "'x MemoryMethods \<Rightarrow> 'x Gameboy \<Rightarrow> nat \<Rightarrow> 'x Gameboy" where
  "serviceInterrupt M gb interrupt =
     (if \<not> interruptsOn gb \<and> halted gb then gb\<lparr>halted := False\<rparr>
      else
        (let gb1 = gb\<lparr>interruptsOn := False, halted := False\<rparr>;
             req = Mem_ReadHighRam M (Memory gb1) 0xFF0F;
             req = bits_Reset req interrupt;
             gb2 = gb1\<lparr>Memory := Mem_Write M (Memory gb1) 0xFF0F req\<rparr>;
             gb3 = pushStack M gb2 (PC (CPU gb2))
         in gb3\<lparr>CPU := (CPU gb3)\<lparr>PC := interruptAddress interrupt\<rparr>\<rparr>))"

text \<open>The scan over the five lines, from line \<open>i\<close> on: the \<open>for\<close> loop of \<open>doInterrupts\<close>.\<close>

function scanInterrupts ::
  "'x MemoryMethods \<Rightarrow> 'x Gameboy \<Rightarrow> byte \<Rightarrow> byte \<Rightarrow> nat \<Rightarrow> 'x Gameboy \<times> go_int" where
  "scanInterrupts M gb req enabled i =
     (if i < 5 then
        (if bits_Test req i \<and> bits_Test enabled i then (serviceInterrupt M gb i, 20)
         else scanInterrupts M gb req enabled (i + 1))
      else (gb, 0))"
  by pat_completeness auto
termination
  by (relation "measure (\<lambda>(M, gb, req, enabled, i). 5 - i)") auto

definition doInterrupts :: "'x MemoryMethods \<Rightarrow> 'x Gameboy \<Rightarrow> 'x Gameboy \<times> go_int" where
  "doInterrupts M gb =
     (if interruptsEnabling gb then
        (gb\<lparr>interruptsOn := True, interruptsEnabling := False\<rparr>, 0)
      else if \<not> interruptsOn gb \<and> \<not> halted gb then (gb, 0)
      else
        (let req = HighRAM (Memory gb) 0x0F OR 0xE0;
             enabled = HighRAM (Memory gb) 0xFF
         in if req > 0 then scanInterrupts M gb req enabled 0 else (gb, 0)))"

subsection \<open>Saving and loading the state\<close>

text \<open>
  The \<open>io.Writer\<close> is a sink: the bytes written so far and the room left. A write that
  does not fit fails, which is the error \<open>SaveState\<close> hands on. The \<open>io.Reader\<close> is the
  list of bytes still to read; \<open>binary.Read\<close> fails with \<open>EOF\<close> on an empty stream and
  with \<open>UnexpectedEOF\<close> on one that ends inside the value.
\<close>

type_synonym sink = "byte list \<times> nat"

definition sink_Write :: "sink \<Rightarrow> byte list \<Rightarrow> error + sink" where
  "sink_Write w bs =
     (if length bs \<le> snd w then Inr (fst w @ bs, snd w - length bs) else Inl ShortWrite)"

definition and_then :: "error + 'a \<Rightarrow> ('a \<Rightarrow> error + 'b) \<Rightarrow> error + 'b" where
  \<comment> \<open>\<open>if err != nil { return err }\<close>\<close>
  "and_then r f = (case r of Inl e \<Rightarrow> Inl e | Inr a \<Rightarrow> f a)"

definition le16 :: "uint16 \<Rightarrow> byte list" where
  "le16 w = [ucast w, ucast (drop_bit 8 w)]"

definition le32 :: "uint32 \<Rightarrow> byte list" where
  "le32 w = [ucast w, ucast (drop_bit 8 w), ucast (drop_bit 16 w), ucast (drop_bit 24 w)]"

definition read_bytes :: "nat \<Rightarrow> byte list \<Rightarrow> error + (byte list \<times> byte list)" where
  "read_bytes n r =
     (if n \<le> length r then Inr (take n r, drop n r)
      else if r = [] then Inl EOF else Inl UnexpectedEOF)"

definition read_uint16 :: "byte list \<Rightarrow> error + (uint16 \<times> byte list)" where
  "read_uint16 r =
     (case read_bytes 2 r of
        Inl e \<Rightarrow> Inl e
      | Inr (b, r') \<Rightarrow> Inr ((ucast (b ! 0) :: uint16) OR push_bit 8 (ucast (b ! 1)), r'))"

definition read_int32 :: "byte list \<Rightarrow> error + (uint32 \<times> byte list)" where
  "read_int32 r =
     (case read_bytes 4 r of
        Inl e \<Rightarrow> Inl e
      | Inr (b, r') \<Rightarrow>
          Inr ((ucast (b ! 0) :: uint32) OR push_bit 8 (ucast (b ! 1))
                 OR push_bit 16 (ucast (b ! 2)) OR push_bit 24 (ucast (b ! 3)), r'))"

definition read_byte :: "byte list \<Rightarrow> error + (byte \<times> byte list)" where
  "read_byte r =
     (case read_bytes 1 r of Inl e \<Rightarrow> Inl e | Inr (b, r') \<Rightarrow> Inr (b ! 0, r'))"

definition SaveState :: "'x MemoryMethods \<Rightarrow> 'x Gameboy \<Rightarrow> sink \<Rightarrow> error + sink" where
  "SaveState M gb writer =
     and_then (sink_Write writer (le16 (AF (CPU gb)))) (\<lambda>writer.
     and_then (sink_Write writer (le16 (BC (CPU gb)))) (\<lambda>writer.
     and_then (sink_Write writer (le16 (DE (CPU gb)))) (\<lambda>writer.
     and_then (sink_Write writer (le16 (HL (CPU gb)))) (\<lambda>writer.
     and_then (sink_Write writer (le16 (PC (CPU gb)))) (\<lambda>writer.
     and_then (sink_Write writer (le16 (SP (CPU gb)))) (\<lambda>writer.
     and_then (sink_Write writer (le32 (ucast (timerCounter gb)))) (\<lambda>writer.
     and_then (sink_Write writer (le32 (ucast (thisCpuTicks gb)))) (\<lambda>writer.
       (let ints = (0 :: byte);
            ints = (if interruptsEnabling gb then 1 else ints);
            ints = (if interruptsOn gb then ints OR 2 else ints);
            ints = (if halted gb then ints OR 3 else ints)
        in and_then (sink_Write writer [ints]) (\<lambda>writer.
             Mem_SaveState M (Memory gb) writer))))))))))"

text \<open>
  \<open>LoadState\<close> changes the machine field by field as it reads; when a read fails it
  returns the error with the machine as changed so far.
\<close>

definition LoadState ::
  "'x MemoryMethods \<Rightarrow> 'x Gameboy \<Rightarrow> byte list \<Rightarrow> 'x Gameboy \<times> error option" where
  "LoadState M gb reader =
     (case read_uint16 reader of Inl e \<Rightarrow> (gb, Some e) | Inr (tmp, reader) \<Rightarrow>
     (let gb = gb\<lparr>CPU := (CPU gb)\<lparr>AF := tmp\<rparr>\<rparr> in
     (case read_uint16 reader of Inl e \<Rightarrow> (gb, Some e) | Inr (tmp, reader) \<Rightarrow>
     (let gb = gb\<lparr>CPU := (CPU gb)\<lparr>BC := tmp\<rparr>\<rparr> in
     (case read_uint16 reader of Inl e \<Rightarrow> (gb, Some e) | Inr (tmp, reader) \<Rightarrow>
     (let gb = gb\<lparr>CPU := (CPU gb)\<lparr>DE := tmp\<rparr>\<rparr> in
     (case read_uint16 reader of Inl e \<Rightarrow> (gb, Some e) | Inr (tmp, reader) \<Rightarrow>
     (let gb = gb\<lparr>CPU := (CPU gb)\<lparr>HL := tmp\<rparr>\<rparr> in
     (case read_uint16 reader of Inl e \<Rightarrow> (gb, Some e) | Inr (tmp, reader) \<Rightarrow>
     (let gb = gb\<lparr>CPU := (CPU gb)\<lparr>PC := tmp\<rparr>\<rparr> in
     (case read_uint16 reader of Inl e \<Rightarrow> (gb, Some e) | Inr (tmp, reader) \<Rightarrow>
     (let gb = gb\<lparr>CPU := (CPU gb)\<lparr>SP := tmp\<rparr>\<rparr> in
     (case read_int32 reader of Inl e \<Rightarrow> (gb, Some e) | Inr (tmp32, reader) \<Rightarrow>
     (let gb = gb\<lparr>timerCounter := scast tmp32\<rparr> in
     (case read_int32 reader of Inl e \<Rightarrow> (gb, Some e) | Inr (tmp32, reader) \<Rightarrow>
     (let gb = gb\<lparr>thisCpuTicks := scast tmp32\<rparr> in
     (case read_byte reader of Inl e \<Rightarrow> (gb, Some e) | Inr (ints, reader) \<Rightarrow>
     (let gb = gb\<lparr>interruptsEnabling := (ints AND 1 \<noteq> 0)\<rparr>;
          gb = gb\<lparr>interruptsOn := (ints AND 2 \<noteq> 0)\<rparr>;
          gb = gb\<lparr>halted := (ints AND 4 \<noteq> 0)\<rparr>;
          (mem, err) = Mem_LoadState M (Memory gb) reader
      in (gb\<lparr>Memory := mem\<rparr>, err)))))))))))))))))))"

subsection \<open>An address space to run the machine on\<close>

text \<open>
  The smallest address space with the shape above: the high RAM alone, where a write to
  0xFF00 or above stores the byte, a read returns it, any other write is dropped, and
  the serialiser writes and reads nothing. The theorems below hold for every
  implementation of the methods that meets their hypotheses; this one shows that the
  hypotheses can be met, and runs the machine at concrete inputs.
\<close>

definition HighRamOnly :: "unit MemoryMethods" where
  "HighRamOnly =
     \<lparr>Mem_Write = (\<lambda>m a v. if a \<ge> 0xFF00
                     then m\<lparr>HighRAM := (HighRAM m)(ucast (a - 0xFF00) := v)\<rparr> else m),
      Mem_Read = (\<lambda>m a. if a \<ge> 0xFF00 then HighRAM m (ucast (a - 0xFF00)) else 0),
      Mem_ReadHighRam = (\<lambda>m a. HighRAM m (ucast (a - 0xFF00))),
      Mem_SaveState = (\<lambda>m w. Inr w),
      Mem_LoadState = (\<lambda>m r. (m, None))\<rparr>"

definition machine :: "byte \<Rightarrow> byte \<Rightarrow> uint16 \<Rightarrow> uint16 \<Rightarrow> bool \<Rightarrow> bool \<Rightarrow> bool \<Rightarrow> unit Gameboy" where
  \<comment> \<open>A machine with the given interrupt request and enable bytes, program counter, stack
      pointer and the flags pending-enable, interrupts-on and halted; all else zero.\<close>
  "machine req enabled pc sp enabling on hlt =
     \<lparr>Memory = \<lparr>HighRAM = (\<lambda>i. 0)(0x0F := req, 0xFF := enabled)\<rparr>,
      CPU = \<lparr>AF = 0, BC = 0, DE = 0, HL = 0, PC = pc, SP = sp, Divider = 0\<rparr>,
      timerCounter = 0, interruptsEnabling = enabling, interruptsOn = on, halted = hlt,
      thisCpuTicks = 0\<rparr>"

definition both_pending :: "unit Gameboy" where
  \<comment> \<open>V-Blank and Timer requested and enabled, interrupts on, running.\<close>
  "both_pending = machine 0x05 0x05 0x0150 0xFFFE False True False"

definition timer_at_FF :: "unit Gameboy" where
  \<comment> \<open>Timer enabled with frequency field 1, TIMA at 0xFF, TMA 0x42.\<close>
  "timer_at_FF =
     (machine 0 0 0x0150 0xFFFE False False False)
       \<lparr>Memory := \<lparr>HighRAM = (\<lambda>i. 0)(0x07 := 0x05, 0x05 := 0xFF, 0x06 := 0x42)\<rparr>\<rparr>"

section \<open>Invariants of the controllers\<close>

definition mode_ok :: "cart \<Rightarrow> bool" where
  \<comment> \<open>An MBC1 in RAM-banking mode has a ROM bank of five bits.\<close>
  "mode_ok c = (case c of CartMBC1 r \<Rightarrow> RomBanking r \<or> RomBank r \<le> 0x1F | _ \<Rightarrow> True)"

definition bank_nonzero :: "cart \<Rightarrow> bool" where
  \<comment> \<open>An MBC2 or MBC3 has a ROM bank other than 0.\<close>
  "bank_nonzero c =
     (case c of CartMBC2 r \<Rightarrow> RomBank r \<noteq> 0 | CartMBC3 r \<Rightarrow> RomBank r \<noteq> 0 | _ \<Rightarrow> True)"








section \<open>Basic facts about slices\<close>

lemma length_make_bytes [simp]: "length (make_bytes n) = n"
  by (simp add: make_bytes_def)

lemma nth_make_bytes [simp]: "i < n \<Longrightarrow> make_bytes n ! i = 0"
  by (simp add: make_bytes_def)

lemma length_copy [simp]: "length (copy dst src) = length dst"
  by (simp add: copy_def)

lemma copy_same_length: "length dst = length src \<Longrightarrow> copy dst src = src"
  by (simp add: copy_def)

section \<open>The RAM-enable gate\<close>

text \<open>
  C10. For MBC1, MBC5 and MBC2 (address bit 8 clear), a WriteROM below 0x2000 sets the
  RAM-enabled flag when the low nibble of the value is 0xA, clears it when the low nibble
  is 0, and for every other value returns the controller unchanged; no other field is
  touched in any of the three cases.
\<close>

theorem ram_enable_gate:
  "address < 0x2000 \<Longrightarrow>
     MBC1_WriteROM r1 address val =
       (if val AND 0xF = 0xA then r1\<lparr>RamEnabled := True\<rparr>
        else if val AND 0xF = 0 then r1\<lparr>RamEnabled := False\<rparr> else r1)
   \<and> MBC5_WriteROM r5 address val =
       (if val AND 0xF = 0xA then r5\<lparr>RamEnabled := True\<rparr>
        else if val AND 0xF = 0 then r5\<lparr>RamEnabled := False\<rparr> else r5)
   \<and> (address AND 0x100 = 0 \<longrightarrow>
       MBC2_WriteROM r2 address val =
         (if val AND 0xF = 0xA then r2\<lparr>RamEnabled := True\<rparr>
          else if val AND 0xF = 0 then r2\<lparr>RamEnabled := False\<rparr> else r2))"
  by (simp add: MBC1_WriteROM_def MBC5_WriteROM_def MBC2_WriteROM_def)

theorem ram_enable_gate_witness:
  "(0x1000 :: uint16) < 0x2000 \<and> (0x1000 :: uint16) AND 0x100 = 0
   \<and> RamEnabled (MBC1_WriteROM (NewMBC1 []) 0x1000 0x0A)
   \<and> RamEnabled (MBC5_WriteROM (NewMBC5 []) 0x1000 0x0A)
   \<and> RamEnabled (MBC2_WriteROM (NewMBC2 []) 0x1000 0x0A)"
  using ram_enable_gate [of "0x1000" "NewMBC1 []" "0x0A" "NewMBC5 []" "NewMBC2 []"]
  by simp

section \<open>Bits and bytes\<close>

lemma bits_Test_bit: "bits_Test val i = bit val i"
  by (simp add: bits_Test_def bit_iff_odd_drop_bit and_one_eq mod_2_eq_odd)

lemma bit_bits_Set: "bit (bits_Set val i) j = (bit val j \<or> (j = i \<and> i < 8))"
  by (auto simp add: bits_Set_def bit_simps)

lemma bit_bits_Reset: "bit (bits_Reset val i) j = (bit val j \<and> j \<noteq> i)"
  by (auto simp add: bits_Reset_def bit_simps dest: bit_imp_le_length)

text \<open>Two bytes that agree on their low five bits agree on each interrupt line.\<close>

lemma bits_Test_low5:
  assumes "i < 5" and "a AND 0x1F = b AND 0x1F"
  shows "bits_Test a i = bits_Test b i"
proof -
  have "(0x1F :: byte) = mask 5" by (simp add: mask_eq_exp_minus_1)
  with assms(2) have "bit (a AND mask 5) i = bit (b AND mask 5) i" by simp
  with assms(1) show ?thesis by (simp add: bits_Test_bit bit_simps)
qed

lemma E0_low: 
  assumes "i < 5"
  shows "\<not> bit (0xE0 :: byte) i"
proof -
  have "(0xE0 :: byte) AND mask 5 = 0" by (simp add: mask_eq_exp_minus_1)
  then have "\<not> bit ((0xE0 :: byte) AND mask 5) i" by simp
  with assms show ?thesis by (simp add: bit_and_iff bit_mask_iff)
qed

lemma bits_Test_or_E0: "i < 5 \<Longrightarrow> bits_Test (v OR 0xE0) i = bits_Test v i"
  using E0_low [of i] by (auto simp add: bits_Test_bit bit_or_iff)

lemma or_E0_pos: "(v :: byte) OR 0xE0 > 0"
  by (simp add: word_gt_0 or_eq_0_iff)

lemma hi_byte: "(ucast (drop_bit 8 (v AND 0xFF00 :: uint16)) :: byte) = ucast (drop_bit 8 v)"
proof -
  have "(0xFF00 :: uint16) = push_bit 8 (mask 8)" by (simp add: mask_eq_exp_minus_1)
  then have "ucast (drop_bit 8 (v AND 0xFF00))
               = (ucast (drop_bit 8 (v AND push_bit 8 (mask 8))) :: byte)"
    by simp
  also have "\<dots> = ucast (drop_bit 8 v)"
    by (rule bit_eqI) (auto simp add: bit_simps)
  finally show ?thesis .
qed

lemma lo_byte: "(ucast (v AND 0xFF :: uint16) :: byte) = ucast v"
proof -
  have "(0xFF :: uint16) = mask 8" by (simp add: mask_eq_exp_minus_1)
  then have "(ucast (v AND 0xFF) :: byte) = ucast (v AND mask 8)" by simp
  also have "\<dots> = ucast v"
    by (rule bit_eqI) (auto simp add: bit_simps)
  finally show ?thesis .
qed

lemma join_bytes:
  "(ucast (ucast (v :: uint16) :: byte) :: uint16)
     OR push_bit 8 (ucast (ucast (drop_bit 8 v) :: byte)) = v"
  by (rule bit_eqI) (auto simp add: bit_simps dest: bit_imp_le_length)

section \<open>Waking a halted machine\<close>

lemma serviceInterrupt_halted:
  "\<not> interruptsOn gb \<Longrightarrow> halted gb \<Longrightarrow> serviceInterrupt M gb i = gb\<lparr>halted := False\<rparr>"
  by (simp add: serviceInterrupt_def)

lemma scan_halted:
  "\<not> interruptsOn gb \<Longrightarrow> halted gb \<Longrightarrow> j \<le> i \<Longrightarrow> i < 5 \<Longrightarrow> bits_Test req i \<Longrightarrow>
   bits_Test enabled i \<Longrightarrow> scanInterrupts M gb req enabled j = (gb\<lparr>halted := False\<rparr>, 20)"
proof (induction M gb req enabled j rule: scanInterrupts.induct)
  case (1 M gb req enabled j)
  show ?case
  proof (cases "bits_Test req j \<and> bits_Test enabled j")
    case True
    with 1(2-5) show ?thesis by (simp add: serviceInterrupt_halted)
  next
    case False
    with 1(6,7) have "j \<noteq> i" by auto
    with 1(4,5) have "j < 5" and "j + 1 \<le> i" by auto
    with 1 False show ?thesis by auto
  qed
qed

text \<open>
  C5, as the code has it. When the machine is halted with interrupts off, no
  pending-enable promotion is due and some line \<open>i\<close> is both requested and enabled,
  interrupt evaluation returns 20 cycles and clears the halted flag, and changes nothing
  else: the program counter, the stack pointer, the interrupts-on flag and the whole
  address space are as before, so the request bit of the line is still set.
\<close>

theorem halted_wakeup:
  assumes "\<not> interruptsEnabling gb" and "\<not> interruptsOn gb" and "halted gb"
    and "i < 5" and "bits_Test (HighRAM (Memory gb) 0x0F) i"
    and "bits_Test (HighRAM (Memory gb) 0xFF) i"
  shows "doInterrupts M gb = (gb\<lparr>halted := False\<rparr>, 20)"
  using assms
    scan_halted [of gb 0 i "HighRAM (Memory gb) 0x0F OR 0xE0" "HighRAM (Memory gb) 0xFF" M]
  by (simp add: doInterrupts_def Let_def or_E0_pos bits_Test_or_E0)

theorem halted_wakeup_witness:
  "doInterrupts HighRamOnly (machine 0x04 0x04 0x0150 0xFFFE False False True)
     = ((machine 0x04 0x04 0x0150 0xFFFE False False True)\<lparr>halted := False\<rparr>, 20)"
  using halted_wakeup [of "machine 0x04 0x04 0x0150 0xFFFE False False True" 2 HighRamOnly]
  by (simp add: machine_def bits_Test_def)

text \<open>
  The claim as written fails: with V-Blank requested and enabled on a machine halted with
  interrupts off, the line is serviced (20 cycles, halted cleared) and its request bit is
  still set afterwards.
\<close>

theorem halted_wakeup_keeps_request:
  "halted (machine 0x01 0x01 0x0150 0xFFFE False False True)
   \<and> \<not> interruptsOn (machine 0x01 0x01 0x0150 0xFFFE False False True)
   \<and> bits_Test (HighRAM (Memory (machine 0x01 0x01 0x0150 0xFFFE False False True)) 0x0F) 0
   \<and> bits_Test (HighRAM (Memory (machine 0x01 0x01 0x0150 0xFFFE False False True)) 0xFF) 0
   \<and> snd (doInterrupts HighRamOnly (machine 0x01 0x01 0x0150 0xFFFE False False True)) = 20
   \<and> \<not> halted (fst (doInterrupts HighRamOnly (machine 0x01 0x01 0x0150 0xFFFE False False True)))
   \<and> bits_Test (HighRAM (Memory (fst (doInterrupts HighRamOnly
         (machine 0x01 0x01 0x0150 0xFFFE False False True)))) 0x0F) 0"
  by (simp add: machine_def doInterrupts_def serviceInterrupt_def bits_Test_def)

section \<open>The interrupt priority\<close>

lemma pushStack_eq:
  "pushStack M gb v =
     gb\<lparr>Memory := Mem_Write M (Mem_Write M (Memory gb) (SP (CPU gb) - 1) (ucast (drop_bit 8 v)))
                      (SP (CPU gb) - 2) (ucast v),
        CPU := (CPU gb)\<lparr>SP := SP (CPU gb) - 2\<rparr>\<rparr>"
  by (simp add: pushStack_def Let_def hi_byte lo_byte)

text \<open>
  C6. With interrupts on, the machine not halted, no pending-enable promotion due, and
  V-Blank (bit 0) and Timer (bit 2) both requested and enabled, one interrupt evaluation
  returns 20 cycles and services V-Blank alone: interrupts-on is cleared, the request
  byte is written back with bit 0 reset, the program counter is pushed (high byte at
  SP-1, low byte at SP-2, SP lowered by 2) and the program counter becomes 0x40.

  What the absent \<open>Memory\<close> methods must do for the request bits to read as claimed is
  assumed: reading and writing 0xFF0F go to byte 0x0F of the high RAM (on the five
  interrupt lines), and the two stack cells are not that byte. Then bit 0 of the request
  byte is clear afterwards and bit 2 is still set.
\<close>

theorem vblank_first:
  assumes "\<not> interruptsEnabling gb" and "interruptsOn gb" and "\<not> halted gb"
    and "bits_Test (HighRAM (Memory gb) 0x0F) 0" and "bits_Test (HighRAM (Memory gb) 0xFF) 0"
    and "bits_Test (HighRAM (Memory gb) 0x0F) 2" and "bits_Test (HighRAM (Memory gb) 0xFF) 2"
    and "Mem_ReadHighRam M (Memory gb) 0xFF0F AND 0x1F = HighRAM (Memory gb) 0x0F AND 0x1F"
    and "\<forall>v. HighRAM (Mem_Write M (Memory gb) 0xFF0F v) 0x0F AND 0x1F = v AND 0x1F"
    and "\<forall>m b. HighRAM (Mem_Write M m (SP (CPU gb) - 1) b) 0x0F = HighRAM m 0x0F"
    and "\<forall>m b. HighRAM (Mem_Write M m (SP (CPU gb) - 2) b) 0x0F = HighRAM m 0x0F"
  shows "snd (doInterrupts M gb) = 20
         \<and> fst (doInterrupts M gb) =
             gb\<lparr>interruptsOn := False, halted := False,
                Memory := Mem_Write M (Mem_Write M
                   (Mem_Write M (Memory gb) 0xFF0F
                      (bits_Reset (Mem_ReadHighRam M (Memory gb) 0xFF0F) 0))
                   (SP (CPU gb) - 1) (ucast (drop_bit 8 (PC (CPU gb)))))
                   (SP (CPU gb) - 2) (ucast (PC (CPU gb))),
                CPU := (CPU gb)\<lparr>SP := SP (CPU gb) - 2, PC := 0x40\<rparr>\<rparr>
         \<and> \<not> bits_Test (HighRAM (Memory (fst (doInterrupts M gb))) 0x0F) 0
         \<and> bits_Test (HighRAM (Memory (fst (doInterrupts M gb))) 0x0F) 2"
proof -
  let ?r = "bits_Reset (Mem_ReadHighRam M (Memory gb) 0xFF0F) 0"
  let ?m1 = "Mem_Write M (Memory gb) 0xFF0F ?r"
  have scan: "doInterrupts M gb = (serviceInterrupt M gb 0, 20)"
    using assms(1-5) by (simp add: doInterrupts_def Let_def or_E0_pos bits_Test_or_E0)
  have serv: "serviceInterrupt M gb 0 =
             gb\<lparr>interruptsOn := False, halted := False,
                Memory := Mem_Write M (Mem_Write M ?m1
                   (SP (CPU gb) - 1) (ucast (drop_bit 8 (PC (CPU gb)))))
                   (SP (CPU gb) - 2) (ucast (PC (CPU gb))),
                CPU := (CPU gb)\<lparr>SP := SP (CPU gb) - 2, PC := 0x40\<rparr>\<rparr>"
    using assms(2)
    by (simp add: serviceInterrupt_def Let_def pushStack_eq interruptAddress_def
        interruptAddresses_def)
  have IF: "HighRAM (Memory (serviceInterrupt M gb 0)) 0x0F AND 0x1F = ?r AND 0x1F"
    using assms(9-11) by (simp add: serv)
  have r0: "\<not> bits_Test ?r 0" by (simp add: bits_Test_bit bit_bits_Reset)
  have "bits_Test (Mem_ReadHighRam M (Memory gb) 0xFF0F) 2"
    using bits_Test_low5 [OF _ assms(8), of 2] assms(6) by simp
  then have r2: "bits_Test ?r 2" by (simp add: bits_Test_bit bit_bits_Reset)
  have "\<not> bits_Test (HighRAM (Memory (serviceInterrupt M gb 0)) 0x0F) 0"
    using bits_Test_low5 [OF _ IF, of 0] r0 by simp
  moreover have "bits_Test (HighRAM (Memory (serviceInterrupt M gb 0)) 0x0F) 2"
    using bits_Test_low5 [OF _ IF, of 2] r2 by simp
  ultimately show ?thesis using scan serv by simp
qed

theorem vblank_first_witness:
  "snd (doInterrupts HighRamOnly both_pending) = 20
   \<and> fst (doInterrupts HighRamOnly both_pending) =
       both_pending\<lparr>interruptsOn := False, halted := False,
          Memory := Mem_Write HighRamOnly (Mem_Write HighRamOnly
             (Mem_Write HighRamOnly (Memory both_pending) 0xFF0F
                (bits_Reset (Mem_ReadHighRam HighRamOnly (Memory both_pending) 0xFF0F) 0))
             (SP (CPU both_pending) - 1) (ucast (drop_bit 8 (PC (CPU both_pending)))))
             (SP (CPU both_pending) - 2) (ucast (PC (CPU both_pending))),
          CPU := (CPU both_pending)\<lparr>SP := SP (CPU both_pending) - 2, PC := 0x40\<rparr>\<rparr>
   \<and> \<not> bits_Test (HighRAM (Memory (fst (doInterrupts HighRamOnly both_pending))) 0x0F) 0
   \<and> bits_Test (HighRAM (Memory (fst (doInterrupts HighRamOnly both_pending))) 0x0F) 2"
  by (rule vblank_first)
     (simp_all add: both_pending_def HighRamOnly_def machine_def bits_Test_def)

section \<open>The stack\<close>

text \<open>
  C7, as the code has it. For every 16-bit value and every stack pointer, \<open>pushStack\<close>
  writes the high byte at SP-1, then the low byte at SP-2, and lowers SP by 2; \<open>popStack\<close>
  reads the low byte at SP and the high byte at SP+1, joins them little-endian and raises
  SP by 2, so that SP is as it was before the push. Where the two cells SP-1 and SP-2
  hold what is written to them (the address space has RAM there), the pop after the push
  reads those two bytes back and returns the value pushed.
\<close>

theorem stack_round_trip:
  "Memory (pushStack M gb v)
     = Mem_Write M (Mem_Write M (Memory gb) (SP (CPU gb) - 1) (ucast (drop_bit 8 v)))
         (SP (CPU gb) - 2) (ucast v)
   \<and> SP (CPU (pushStack M gb v)) = SP (CPU gb) - 2
   \<and> popStack M (pushStack M gb v) =
       ((ucast (Mem_Read M (Memory (pushStack M gb v)) (SP (CPU gb) - 2)) :: uint16)
          OR push_bit 8 (ucast (Mem_Read M (Memory (pushStack M gb v)) (SP (CPU gb) - 2 + 1))),
        (pushStack M gb v)\<lparr>CPU := (CPU (pushStack M gb v))\<lparr>SP := SP (CPU gb) - 2 + 2\<rparr>\<rparr>)
   \<and> SP (CPU (snd (popStack M (pushStack M gb v)))) = SP (CPU gb)
   \<and> ((\<forall>m b. Mem_Read M (Mem_Write M m (SP (CPU gb) - 1) b) (SP (CPU gb) - 1) = b)
        \<and> (\<forall>m b. Mem_Read M (Mem_Write M m (SP (CPU gb) - 2) b) (SP (CPU gb) - 2) = b)
        \<and> (\<forall>m b. Mem_Read M (Mem_Write M m (SP (CPU gb) - 2) b) (SP (CPU gb) - 1)
                     = Mem_Read M m (SP (CPU gb) - 1))
      \<longrightarrow> Mem_Read M (Memory (pushStack M gb v)) (SP (CPU gb) - 2) = ucast v
          \<and> Mem_Read M (Memory (pushStack M gb v)) (SP (CPU gb) - 2 + 1) = ucast (drop_bit 8 v)
          \<and> fst (popStack M (pushStack M gb v)) = v)"
proof -
  have sp1: "SP (CPU gb) - 2 + 1 = SP (CPU gb) - 1" by simp
  show ?thesis
    by (simp add: pushStack_eq popStack_def Let_def sp1 join_bytes)
qed

theorem stack_round_trip_witness:
  "fst (popStack HighRamOnly (pushStack HighRamOnly
          (machine 0 0 0x0150 0xFFFE False False False) 0x1234)) = 0x1234
   \<and> SP (CPU (pushStack HighRamOnly
          (machine 0 0 0x0150 0xFFFE False False False) 0x1234)) = 0xFFFC
   \<and> SP (CPU (snd (popStack HighRamOnly (pushStack HighRamOnly
          (machine 0 0 0x0150 0xFFFE False False False) 0x1234)))) = 0xFFFE"
  using stack_round_trip [of HighRamOnly "machine 0 0 0x0150 0xFFFE False False False" "0x1234"]
  by (simp add: HighRamOnly_def machine_def)

text \<open>
  The claim as written, for every stack pointer, fails: the push goes through the address
  space, which does not store everywhere. With the stack pointer at 0x0001 the high byte
  goes to 0x0000, where a write is not kept; 0xBEEF is pushed and 0x00EF is popped, with
  SP back at 0x0001.
\<close>

theorem stack_outside_ram:
  "fst (popStack HighRamOnly (pushStack HighRamOnly
          (machine 0 0 0x0150 0x0001 False False False) 0xBEEF)) = 0x00EF
   \<and> fst (popStack HighRamOnly (pushStack HighRamOnly
          (machine 0 0 0x0150 0x0001 False False False) 0xBEEF)) \<noteq> 0xBEEF
   \<and> SP (CPU (snd (popStack HighRamOnly (pushStack HighRamOnly
          (machine 0 0 0x0150 0x0001 False False False) 0xBEEF)))) = 0x0001"
  by (simp add: popStack_def pushStack_def HighRamOnly_def machine_def)

section \<open>The timer\<close>

lemma dividerRegister_keeps:
  "timerCounter (dividerRegister gb cycles) = timerCounter gb"
  "i \<noteq> 0x04 \<Longrightarrow> HighRAM (Memory (dividerRegister gb cycles)) i = HighRAM (Memory gb) i"
  by (simp_all add: dividerRegister_def Let_def DIV_def)

lemma clockFreqCount_pos: "\<not> clockFreqCount f \<le>s 0"
  by (simp add: clockFreqCount_def word_sle_eq)

lemma timerLoop_done: "timerCounter gb = 0 \<Longrightarrow> timerLoop M f gb = gb"
  using clockFreqCount_pos [of f] by simp

text \<open>With exactly one threshold on the counter the loop body runs once.\<close>

lemma timerLoop_once:
  assumes "timerCounter gb = clockFreqCount f"
  shows "timerLoop M f gb =
     (if HighRAM (Memory gb) 0x05 = 0xFF then
        requestInterrupt M
          (gb\<lparr>timerCounter := 0,
              Memory := (Memory gb)\<lparr>HighRAM :=
                (HighRAM (Memory gb))(0x05 := HighRAM (Memory gb) 0x06)\<rparr>\<rparr>) 2
      else gb\<lparr>timerCounter := 0,
              Memory := (Memory gb)\<lparr>HighRAM :=
                (HighRAM (Memory gb))(0x05 := HighRAM (Memory gb) 0x05 + 1)\<rparr>\<rparr>)"
proof -
  have t: "timerCounter (requestInterrupt M g 2) = timerCounter g" for g :: "'a Gameboy"
    by (simp add: requestInterrupt_def Let_def)
  show ?thesis
    apply (subst timerLoop.simps)
    using assms by (simp add: Let_def TIMA_def timerLoop_done t del: timerLoop.simps)
qed

text \<open>
  C8. With the enable bit (bit 2) of the timer control set and the internal counter at 0,
  advancing the timers by the threshold of the frequency field (1024 cycles for field 0,
  16 for 1, 64 for 2, 256 for 3) leaves the internal counter at 0 and adds one to TIMA
  (high RAM byte 0x05); if TIMA was 0xFF it is loaded from TMA (byte 0x06) instead and
  bit 2 of the interrupt request byte is set. The request is raised through the absent
  \<open>Memory.Write\<close>: that a write to 0xFF0F lands in byte 0x0F (on the five interrupt lines)
  and leaves TIMA alone is assumed.
\<close>

theorem timer_threshold:
  assumes "bits_Test (HighRAM (Memory gb) 0x07) 2" and "timerCounter gb = 0"
    and "(HighRAM (Memory gb) 0x07 AND 0x3, cycles) \<in> {(0, 1024), (1, 16), (2, 64), (3, 256)}"
    and "\<forall>m v. HighRAM (Mem_Write M m 0xFF0F v) 0x0F AND 0x1F = v AND 0x1F"
    and "\<forall>m v. HighRAM (Mem_Write M m 0xFF0F v) 0x05 = HighRAM m 0x05"
  shows "timerCounter (updateTimers M gb cycles) = 0
         \<and> (if HighRAM (Memory gb) 0x05 = 0xFF
            then HighRAM (Memory (updateTimers M gb cycles)) 0x05 = HighRAM (Memory gb) 0x06
                 \<and> bits_Test (HighRAM (Memory (updateTimers M gb cycles)) 0x0F) 2
            else HighRAM (Memory (updateTimers M gb cycles)) 0x05
                   = HighRAM (Memory gb) 0x05 + 1)"
proof -
  let ?gb1 = "dividerRegister gb cycles"
  let ?gb2 = "?gb1\<lparr>timerCounter := timerCounter ?gb1 + cycles\<rparr>"
  have en: "isClockEnabled ?gb1"
    using assms(1) by (simp add: isClockEnabled_def dividerRegister_keeps)
  have f: "getClockFreq ?gb2 = HighRAM (Memory gb) 0x07 AND 0x3"
    by (simp add: getClockFreq_def dividerRegister_keeps)
  have c: "cycles = clockFreqCount (HighRAM (Memory gb) 0x07 AND 0x3)"
    using assms(3) by (auto simp add: clockFreqCount_def)
  have tc: "timerCounter ?gb2 = clockFreqCount (getClockFreq ?gb2)"
    using assms(2) c f by (simp add: dividerRegister_keeps)
  have upd: "updateTimers M gb cycles = timerLoop M (getClockFreq ?gb2) ?gb2"
    using en by (simp add: updateTimers_def Let_def)
  have bit2: "bits_Test (HighRAM (Mem_Write M m 0xFF0F (bits_Set r 2)) 0x0F) 2" for m r
  proof -
    have "HighRAM (Mem_Write M m 0xFF0F (bits_Set r 2)) 0x0F AND 0x1F = bits_Set r 2 AND 0x1F"
      using assms(4) by simp
    from bits_Test_low5 [OF _ this, of 2] show ?thesis
      by (simp add: bits_Test_bit bit_bits_Set)
  qed
  show ?thesis
    unfolding upd timerLoop_once [OF tc]
    using assms(5) by (simp add: dividerRegister_keeps requestInterrupt_def Let_def bit2)
qed

theorem timer_threshold_witness:
  "timerCounter (updateTimers HighRamOnly timer_at_FF 16) = 0
   \<and> HighRAM (Memory (updateTimers HighRamOnly timer_at_FF 16)) 0x05 = 0x42
   \<and> bits_Test (HighRAM (Memory (updateTimers HighRamOnly timer_at_FF 16)) 0x0F) 2"
  using timer_threshold [of timer_at_FF 16 HighRamOnly]
  by (simp add: timer_at_FF_def HighRamOnly_def machine_def bits_Test_def)

section \<open>The flag byte of a saved state\<close>

text \<open>
  C4 does not hold of the code. \<open>SaveState\<close> marks a halted machine by or-ing 3 into the
  flag byte, and \<open>LoadState\<close> reads the halted flag from bit 2 (mask 4). Every halted
  machine \<open>gb\<close> is saved with the flag byte (byte 20 of the stream) equal to 3, whatever
  its registers and its two other flags were, and any machine \<open>gb0\<close> that loads the
  stream comes out not halted, with pending-enable and interrupts-on both set.
\<close>

theorem halted_flag_lost:
  "(case SaveState HighRamOnly (gb\<lparr>halted := True\<rparr>) ([], 64) of
      Inl e \<Rightarrow> None
    | Inr w \<Rightarrow>
        (let gb' = fst (LoadState HighRamOnly gb0 (fst w))
         in Some (fst w ! 20, interruptsEnabling gb', interruptsOn gb', halted gb')))
   = Some (3, True, True, False)"
  by (cases "interruptsEnabling gb"; cases "interruptsOn gb")
     (simp_all add: SaveState_def LoadState_def and_then_def sink_Write_def le16_def le32_def
        read_uint16_def read_int32_def read_byte_def read_bytes_def HighRamOnly_def Let_def)

section \<open>Words\<close>

lemma unat_ucast_byte: "unat (ucast (b :: byte) :: uint32) = unat b"
  by (simp add: unsigned_ucast_eq take_bit_nat_eq_self_iff) (use unsigned_less[of b, where 'a=nat] in simp)


lemma ucast_and_le: "unat k < 256 \<Longrightarrow> (ucast ((v::byte) AND k) :: uint32) \<le> ucast k"
  using word_and_le1 [of v k] by (simp add: word_le_nat_alt unat_ucast_byte)

lemma le_1F_and_E0: 
  assumes "(w :: uint32) \<le> 0x1F" shows "w AND 0xE0 = 0"
proof -
  from assms have "uint w < 2 ^ 5" by (simp add: word_le_def)
  then have "w AND mask 5 = w" by (simp add: mask_eq_iff)
  then have "w AND 0xE0 = (w AND mask 5) AND 0xE0" by simp
  also have "\<dots> = w AND (mask 5 AND 0xE0)" by (simp only: and.assoc)
  also have "mask 5 AND (0xE0 :: uint32) = 0" by (simp add: mask_eq_exp_minus_1)
  finally show ?thesis by simp
qed

lemma le_1F_and_1F:
  assumes "(w :: uint32) \<le> 0x1F" shows "w AND 0x1F = w"
proof -
  from assms have "uint w < 2 ^ 5" by (simp add: word_le_def)
  then have "w AND mask 5 = w" by (simp add: mask_eq_iff)
  then show ?thesis by (simp add: mask_eq_exp_minus_1)
qed

section \<open>The MBC1 mode switch\<close>

lemma low5_le: "(ucast ((v :: byte) AND 0x1f) :: uint32) \<le> 0x1F"
  using ucast_and_le [of "0x1f" v] by simp

lemma bump_le:
  assumes "x \<le> 0x1F"
  shows "RomBank (updateRomBankIfZero (r\<lparr>RomBank := x\<rparr>)) \<le> 0x1F"
proof -
  have "x \<noteq> 0x20" "x \<noteq> 0x40" "x \<noteq> 0x60" using assms by auto
  then show ?thesis using assms by (simp add: updateRomBankIfZero_def)
qed

lemma updateRomBankIfZero_RomBanking [simp]:
  "RomBanking (updateRomBankIfZero r) = RomBanking r"
  by (simp add: updateRomBankIfZero_def)

lemma MBC1_WriteROM_mode_ok:
  assumes "RomBanking r \<or> RomBank r \<le> 0x1F"
  shows "RomBanking (MBC1_WriteROM r a v) \<or> RomBank (MBC1_WriteROM r a v) \<le> 0x1F"
proof -
  consider (enable) "a < 0x2000" | (low) "\<not> a < 0x2000" "a < 0x4000"
    | (high) "\<not> a < 0x2000" "\<not> a < 0x4000" "a < 0x6000"
    | (mode) "\<not> a < 0x2000" "\<not> a < 0x4000" "\<not> a < 0x6000" "a < 0x8000"
    | (none) "\<not> a < 0x2000" "\<not> a < 0x4000" "\<not> a < 0x6000" "\<not> a < 0x8000"
    by blast
  then show ?thesis
  proof cases
    case enable
    with assms show ?thesis by (simp add: MBC1_WriteROM_def)
  next
    case low
    show ?thesis
    proof (cases "RomBanking r")
      case True
      with low show ?thesis by (simp add: MBC1_WriteROM_def)
    next
      case False
      with assms have "RomBank r AND 0xe0 = 0" by (simp add: le_1F_and_E0)
      then have "(RomBank r AND 0xe0) OR ucast (v AND 0x1f) \<le> 0x1F"
        using low5_le [of v] by simp
      from bump_le [OF this] low show ?thesis by (simp add: MBC1_WriteROM_def)
    qed
  next
    case high
    with assms show ?thesis by (cases "RomBanking r") (simp_all add: MBC1_WriteROM_def)
  next
    case mode
    have "RomBank r AND 0x1F \<le> 0x1F" by (rule word_and_le1)
    with mode show ?thesis by (simp add: MBC1_WriteROM_def Let_def)
  next
    case none
    with assms show ?thesis by (simp add: MBC1_WriteROM_def)
  qed
qed


lemma map_sum_id_Inr: "map_sum id f x = Inr y \<longleftrightarrow> (\<exists>z. x = Inr z \<and> y = f z)"
  by (cases x) auto

lemma MBC1_WriteRAM_banks:
  "MBC1_WriteRAM r a v = Inr r' \<Longrightarrow> RomBanking r' = RomBanking r \<and> RomBank r' = RomBank r"
  by (auto simp add: MBC1_WriteRAM_def split: if_splits sum.splits)

lemma do_call_mode_ok:
  assumes "mode_ok c" and "do_call c x = Inr c'"
  shows "mode_ok c'"
proof (cases c)
  case (CartMBC1 r)
  with assms(1) have r: "RomBanking r \<or> RomBank r \<le> 0x1F" by (simp add: mode_ok_def)
  show ?thesis
  proof (cases x)
    case (CallWriteROM a v)
    with CartMBC1 assms(2) MBC1_WriteROM_mode_ok [OF r, of a v] show ?thesis
      by (auto simp add: mode_ok_def)
  next
    case (CallWriteRAM a v)
    with CartMBC1 assms(2) obtain r' where "MBC1_WriteRAM r a v = Inr r'" "c' = CartMBC1 r'"
      by (cases "MBC1_WriteRAM r a v") auto
    with r MBC1_WriteRAM_banks [of r a v r'] show ?thesis by (simp add: mode_ok_def)
  next
    case (CallRead a)
    with CartMBC1 assms show ?thesis by (auto split: sum.splits)
  qed
next
  case (CartMBC2 r)
  with assms(2) show ?thesis by (cases x) (auto simp add: mode_ok_def map_sum_id_Inr split: sum.splits)
next
  case (CartMBC3 r)
  with assms(2) show ?thesis by (cases x) (auto simp add: mode_ok_def map_sum_id_Inr split: sum.splits)
next
  case (CartMBC5 r)
  with assms(2) show ?thesis by (cases x) (auto simp add: mode_ok_def map_sum_id_Inr split: sum.splits)
qed

lemma run_mode_ok: "mode_ok c \<Longrightarrow> run c xs = Inr c' \<Longrightarrow> mode_ok c'"
proof (induction xs arbitrary: c)
  case Nil
  then show ?case by simp
next
  case (Cons x xs)
  from Cons.prems(2) obtain c1 where 1: "do_call c x = Inr c1" and 2: "run c1 xs = Inr c'"
    by (cases "do_call c x") auto
  from do_call_mode_ok [OF Cons.prems(1) 1] have "mode_ok c1" .
  from Cons.IH [OF this 2] show ?case .
qed

text \<open>
  C9. Take an MBC1 in RAM-banking mode, in any state it reaches from its constructor (by
  any calls that return). A WriteROM to [0x6000,0x8000) switches it to ROM-banking mode
  exactly when bit 0 of the value is clear, and such a write sets the mode flag and
  resets the RAM bank to 0 and changes nothing else. Afterwards the ROM bank is its prior
  value masked with 0x1F: the write does not touch the ROM bank on this path, and an MBC1
  in RAM-banking mode never holds a ROM bank above 0x1F.
\<close>

theorem mbc1_mode_switch:
  assumes "run (CartMBC1 (NewMBC1 rom)) calls = Inr (CartMBC1 r)"
    and "\<not> RomBanking r" and "0x6000 \<le> address" and "address < 0x8000"
    and "val AND 0x1 = 0x00"
  shows "MBC1_WriteROM r address val = r\<lparr>RomBanking := True, RamBank1 := 0\<rparr>
         \<and> RomBanking (MBC1_WriteROM r address val)
         \<and> RamBank1 (MBC1_WriteROM r address val) = 0
         \<and> RomBank (MBC1_WriteROM r address val) = RomBank r AND 0x1F"
proof -
  have "mode_ok (CartMBC1 (NewMBC1 rom))" by (simp add: mode_ok_def NewMBC1_def)
  from run_mode_ok [OF this assms(1)] assms(2) have "RomBank r \<le> 0x1F"
    by (simp add: mode_ok_def)
  then have *: "RomBank r AND 0x1F = RomBank r" by (rule le_1F_and_1F)
  have a: "\<not> address < 0x6000" "\<not> address < 0x4000" "\<not> address < 0x2000"
    using assms(3) by (simp_all add: word_le_nat_alt word_less_nat_alt)
  have "MBC1_WriteROM r address val = r\<lparr>RomBanking := True, RamBank1 := 0\<rparr>"
    using a assms(4,5) by (simp add: MBC1_WriteROM_def Let_def)
  with * show ?thesis by simp
qed

theorem mbc1_mode_switch_witness:
  "RamBank1 (MBC1_WriteROM (MBC1_WriteROM (NewMBC1 []) 0x2000 0x05) 0x4000 0x03) = 3
   \<and> RomBank (MBC1_WriteROM (MBC1_WriteROM (NewMBC1 []) 0x2000 0x05) 0x4000 0x03) = 5
   \<and> \<not> RomBanking (MBC1_WriteROM (MBC1_WriteROM (NewMBC1 []) 0x2000 0x05) 0x4000 0x03)
   \<and> RomBanking (MBC1_WriteROM
         (MBC1_WriteROM (MBC1_WriteROM (NewMBC1 []) 0x2000 0x05) 0x4000 0x03) 0x6000 0x00)
   \<and> RamBank1 (MBC1_WriteROM
         (MBC1_WriteROM (MBC1_WriteROM (NewMBC1 []) 0x2000 0x05) 0x4000 0x03) 0x6000 0x00) = 0
   \<and> RomBank (MBC1_WriteROM
         (MBC1_WriteROM (MBC1_WriteROM (NewMBC1 []) 0x2000 0x05) 0x4000 0x03) 0x6000 0x00) = 5"
proof -
  let ?s = "MBC1_WriteROM (MBC1_WriteROM (NewMBC1 []) 0x2000 0x05) 0x4000 0x03"
  have s: "RamBank1 ?s = 3" "RomBank ?s = 5" "\<not> RomBanking ?s"
    by (simp_all add: MBC1_WriteROM_def NewMBC1_def updateRomBankIfZero_def)
  have "run (CartMBC1 (NewMBC1 [])) [CallWriteROM 0x2000 0x05, CallWriteROM 0x4000 0x03]
          = Inr (CartMBC1 ?s)"
    by simp
  then have "MBC1_WriteROM ?s 0x6000 0x00 = ?s\<lparr>RomBanking := True, RamBank1 := 0\<rparr>
         \<and> RomBanking (MBC1_WriteROM ?s 0x6000 0x00)
         \<and> RamBank1 (MBC1_WriteROM ?s 0x6000 0x00) = 0
         \<and> RomBank (MBC1_WriteROM ?s 0x6000 0x00) = RomBank ?s AND 0x1F"
    by (rule mbc1_mode_switch) (simp_all add: s(3))
  then have "RomBanking (MBC1_WriteROM ?s 0x6000 0x00)"
    and "RamBank1 (MBC1_WriteROM ?s 0x6000 0x00) = 0"
    and "RomBank (MBC1_WriteROM ?s 0x6000 0x00) = RomBank ?s AND 0x1F"
    by blast+
  with s show ?thesis by simp
qed

section \<open>The MBC3 clock latch\<close>

text \<open>
  What the latch write does: Go's \<open>copy(dst, src)\<close> copies \<open>src\<close> into \<open>dst\<close>, and the
  call is \<open>copy(r.Rtc, r.LatchedRtc)\<close>, so the latched snapshot overwrites the live
  registers and is itself left as it was.
\<close>

lemma MBC3_latch_write:
  assumes "length (Rtc r) = length (LatchedRtc r)" and "0x6000 \<le> address" and "address < 0x8000"
  shows "MBC3_WriteROM r address 0x00 = r\<lparr>Latched := True, Rtc := LatchedRtc r\<rparr>"
proof -
  have "\<not> address < 0x6000" "\<not> address < 0x4000" "\<not> address < 0x2000"
    using assms(2) by (simp_all add: word_le_nat_alt word_less_nat_alt)
  with assms(1,3) show ?thesis by (simp add: MBC3_WriteROM_def copy_same_length)
qed

text \<open>
  C1 does not hold of the code. On a fresh MBC3, enable the RAM, select RTC register 8 and
  write 0x2A to it: a read returns 0x2A. After the latch write of 0x00 the same read
  returns 0x00, the byte of the (never written) latched snapshot, not the live value at
  the moment of the latch; and after the unlatching write of 0x01 the live register
  itself reads 0x00, having been overwritten.
\<close>

theorem latch_overwrites_live:
  "read_after (CartMBC3 (NewMBC3 rom))
      [CallWriteROM 0x0000 0x0A, CallWriteROM 0x4000 0x08, CallWriteRAM 0xA000 0x2A] 0xA000
     = Inr 0x2A
   \<and> read_after (CartMBC3 (NewMBC3 rom))
      [CallWriteROM 0x0000 0x0A, CallWriteROM 0x4000 0x08, CallWriteRAM 0xA000 0x2A,
       CallWriteROM 0x6000 0x00] 0xA000
     = Inr 0x00
   \<and> read_after (CartMBC3 (NewMBC3 rom))
      [CallWriteROM 0x0000 0x0A, CallWriteROM 0x4000 0x08, CallWriteRAM 0xA000 0x2A,
       CallWriteROM 0x6000 0x00, CallWriteROM 0x6000 0x01] 0xA000
     = Inr 0x00"
  by (simp add: read_after_def NewMBC3_def MBC3_WriteROM_def MBC3_WriteRAM_def MBC3_Read_def
      index_def store_def copy_same_length)

section \<open>ROM bank zero\<close>

lemma bump_nonzero:
  "(if x = 0 \<or> x = 0x20 \<or> x = 0x40 \<or> x = 0x60 then x + 1 else x) \<noteq> (0 :: uint32)"
  by auto

lemma MBC1_bank_select:
  assumes "\<not> address < 0x2000" and "address < 0x4000"
  shows "RomBank (MBC1_WriteROM r address val) =
     (let x = (RomBank r AND 0xe0) OR ucast (val AND 0x1f)
      in if x = 0 \<or> x = 0x20 \<or> x = 0x40 \<or> x = 0x60 then x + 1 else x)"
  using assms by (simp add: MBC1_WriteROM_def updateRomBankIfZero_def Let_def)

lemma MBC1_bank_select_high:
  assumes "\<not> address < 0x4000" and "address < 0x6000" and "RomBanking r"
  shows "RomBank (MBC1_WriteROM r address val) =
     (let x = (RomBank r AND 0x1F) OR ucast (val AND 0xe0)
      in if x = 0 \<or> x = 0x20 \<or> x = 0x40 \<or> x = 0x60 then x + 1 else x)"
proof -
  from assms(1) have "\<not> address < 0x2000" by (simp add: word_less_nat_alt)
  with assms show ?thesis by (simp add: MBC1_WriteROM_def updateRomBankIfZero_def Let_def)
qed

lemma ucast_byte_eq_0: "(ucast (b :: byte) :: uint32) = 0 \<longleftrightarrow> b = 0"
  by (metis unat_ucast_byte unat_eq_zero)

lemma MBC2_bank_select:
  assumes "\<not> address < 0x2000" and "address < 0x4000" and "address AND 0x100 = 0x100"
  shows "RomBank (MBC2_WriteROM r address val) =
     (let x = ucast (val AND 0xF)
      in if x = 0 \<or> x = 0x20 \<or> x = 0x40 \<or> x = 0x60 then x + 1 else x)"
  using assms by (simp add: MBC2_WriteROM_def Let_def)

lemma MBC3_bank_select:
  assumes "\<not> address < 0x2000" and "address < 0x4000"
  shows "RomBank (MBC3_WriteROM r address val) =
     (let x = ucast (val AND 0x7F) in if x = 0 then x + 1 else x)"
  using assms by (simp add: MBC3_WriteROM_def Let_def)

lemma MBC2_WriteROM_nonzero: "RomBank r \<noteq> 0 \<Longrightarrow> RomBank (MBC2_WriteROM r a v) \<noteq> 0"
  using bump_nonzero [of "ucast (v AND 0xF)"]
  by (simp add: MBC2_WriteROM_def Let_def)

lemma MBC3_WriteROM_nonzero: "RomBank r \<noteq> 0 \<Longrightarrow> RomBank (MBC3_WriteROM r a v) \<noteq> 0"
  by (simp add: MBC3_WriteROM_def Let_def)

lemma MBC2_WriteRAM_bank: "MBC2_WriteRAM r a v = Inr r' \<Longrightarrow> RomBank r' = RomBank r"
  by (auto simp add: MBC2_WriteRAM_def split: if_splits sum.splits)

lemma MBC3_WriteRAM_bank: "MBC3_WriteRAM r a v = Inr r' \<Longrightarrow> RomBank r' = RomBank r"
  by (auto simp add: MBC3_WriteRAM_def split: if_splits sum.splits)

lemma do_call_bank_nonzero:
  assumes "bank_nonzero c" and "do_call c x = Inr c'"
  shows "bank_nonzero c'"
proof (cases c)
  case (CartMBC1 r)
  with assms(2) show ?thesis by (cases x) (auto simp add: bank_nonzero_def map_sum_id_Inr split: sum.splits)
next
  case (CartMBC2 r)
  with assms show ?thesis
    by (cases x) (auto simp add: bank_nonzero_def map_sum_id_Inr MBC2_WriteROM_nonzero
        split: sum.splits dest: MBC2_WriteRAM_bank)
next
  case (CartMBC3 r)
  with assms show ?thesis
    by (cases x) (auto simp add: bank_nonzero_def map_sum_id_Inr MBC3_WriteROM_nonzero
        split: sum.splits dest: MBC3_WriteRAM_bank)
next
  case (CartMBC5 r)
  with assms(2) show ?thesis by (cases x) (auto simp add: bank_nonzero_def map_sum_id_Inr split: sum.splits)
qed

lemma run_bank_nonzero: "bank_nonzero c \<Longrightarrow> run c xs = Inr c' \<Longrightarrow> bank_nonzero c'"
proof (induction xs arbitrary: c)
  case Nil
  then show ?case by simp
next
  case (Cons x xs)
  from Cons.prems(2) obtain c1 where 1: "do_call c x = Inr c1" and 2: "run c1 xs = Inr c'"
    by (cases "do_call c x") auto
  from do_call_bank_nonzero [OF Cons.prems(1) 1] have "bank_nonzero c1" .
  from Cons.IH [OF this 2] show ?case .
qed


lemma low4_select:
  "(let x = (ucast ((val :: byte) AND 0xF) :: uint32)
    in if x = 0 \<or> x = 0x20 \<or> x = 0x40 \<or> x = 0x60 then x + 1 else x)
   = (if val AND 0xF = 0 then 1 else ucast (val AND 0xF))"
proof -
  have "unat (ucast (val AND 0xF) :: uint32) \<le> 15"
    using word_and_le1 [of val "0xF"] by (simp add: unat_ucast_byte word_le_nat_alt)
  then have "(ucast (val AND 0xF) :: uint32) \<noteq> 0x20" "(ucast (val AND 0xF) :: uint32) \<noteq> 0x40"
    "(ucast (val AND 0xF) :: uint32) \<noteq> 0x60"
    by auto
  then show ?thesis by (simp add: Let_def ucast_byte_eq_0)
qed

text \<open>
  C3, as the code has it. A bank-select WriteROM of an MBC1 (to [0x2000,0x4000), and to
  [0x4000,0x6000) in ROM-banking mode) that computes bank 0x00, 0x20, 0x40 or 0x60 selects
  that bank plus one, and the bank is not 0 after the write. A bank-select WriteROM of an
  MBC3, and of an MBC2 with address bit 8 set, that computes bank 0 selects bank 1. In
  every state an MBC2 or an MBC3 reaches from its constructor the ROM bank is not 0.
\<close>

theorem rom_bank_bump:
  assumes "0x2000 \<le> address" and "address < 0x4000"
  shows "RomBank (MBC1_WriteROM rI address val) =
           (let x = (RomBank rI AND 0xe0) OR ucast (val AND 0x1f)
            in if x = 0 \<or> x = 0x20 \<or> x = 0x40 \<or> x = 0x60 then x + 1 else x)
         \<and> RomBank (MBC1_WriteROM rI address val) \<noteq> 0
         \<and> (0x4000 \<le> address' \<and> address' < 0x6000 \<and> RomBanking rI \<longrightarrow>
              RomBank (MBC1_WriteROM rI address' val) =
                (let x = (RomBank rI AND 0x1F) OR ucast (val AND 0xe0)
                 in if x = 0 \<or> x = 0x20 \<or> x = 0x40 \<or> x = 0x60 then x + 1 else x)
              \<and> RomBank (MBC1_WriteROM rI address' val) \<noteq> 0)
         \<and> RomBank (MBC3_WriteROM rIII address val)
               = (if val AND 0x7F = 0 then 1 else ucast (val AND 0x7F))
         \<and> RomBank (MBC3_WriteROM rIII address val) \<noteq> 0
         \<and> (address AND 0x100 = 0x100 \<longrightarrow>
              RomBank (MBC2_WriteROM rII address val)
                = (if val AND 0xF = 0 then 1 else ucast (val AND 0xF))
              \<and> RomBank (MBC2_WriteROM rII address val) \<noteq> 0)
         \<and> (run (CartMBC2 (NewMBC2 rom)) calls = Inr (CartMBC2 sII) \<longrightarrow> RomBank sII \<noteq> 0)
         \<and> (run (CartMBC3 (NewMBC3 rom)) calls = Inr (CartMBC3 sIII) \<longrightarrow> RomBank sIII \<noteq> 0)"
proof -
  from assms(1) have a: "\<not> address < 0x2000" by (simp add: word_le_nat_alt word_less_nat_alt)
  note m1 = MBC1_bank_select [OF a assms(2), of rI val]
  have b1: "RomBank (MBC1_WriteROM rI address val) \<noteq> 0"
    unfolding m1 Let_def by (rule bump_nonzero)
  have b1h: "RomBank (MBC1_WriteROM rI address' val) =
                (let x = (RomBank rI AND 0x1F) OR ucast (val AND 0xe0)
                 in if x = 0 \<or> x = 0x20 \<or> x = 0x40 \<or> x = 0x60 then x + 1 else x)
              \<and> RomBank (MBC1_WriteROM rI address' val) \<noteq> 0"
    if h: "0x4000 \<le> address'" "address' < 0x6000" "RomBanking rI"
  proof -
    from h(1) have "\<not> address' < 0x4000" by (simp add: word_le_nat_alt word_less_nat_alt)
    note m = MBC1_bank_select_high [OF this h(2,3), of val]
    have "RomBank (MBC1_WriteROM rI address' val) \<noteq> 0"
      unfolding m Let_def by (rule bump_nonzero)
    with m show ?thesis by simp
  qed
  have b3: "RomBank (MBC3_WriteROM rIII address val)
               = (if val AND 0x7F = 0 then 1 else ucast (val AND 0x7F))"
    by (simp add: MBC3_bank_select [OF a assms(2)] Let_def ucast_byte_eq_0)
  then have b3n: "RomBank (MBC3_WriteROM rIII address val) \<noteq> 0"
    by (simp add: ucast_byte_eq_0)
  have b2: "RomBank (MBC2_WriteROM rII address val)
                = (if val AND 0xF = 0 then 1 else ucast (val AND 0xF))
              \<and> RomBank (MBC2_WriteROM rII address val) \<noteq> 0"
    if h: "address AND 0x100 = 0x100"
    by (simp add: MBC2_bank_select [OF a assms(2) h] low4_select ucast_byte_eq_0)
  have sII: "RomBank sII \<noteq> 0" if h: "run (CartMBC2 (NewMBC2 rom)) calls = Inr (CartMBC2 sII)"
  proof -
    have "bank_nonzero (CartMBC2 (NewMBC2 rom))" by (simp add: bank_nonzero_def NewMBC2_def)
    from run_bank_nonzero [OF this h] show ?thesis by (simp add: bank_nonzero_def)
  qed
  have sIII: "RomBank sIII \<noteq> 0" if h: "run (CartMBC3 (NewMBC3 rom)) calls = Inr (CartMBC3 sIII)"
  proof -
    have "bank_nonzero (CartMBC3 (NewMBC3 rom))" by (simp add: bank_nonzero_def NewMBC3_def)
    from run_bank_nonzero [OF this h] show ?thesis by (simp add: bank_nonzero_def)
  qed
  from m1 b1 b1h b3 b3n b2 sII sIII show ?thesis by blast
qed

theorem rom_bank_bump_witness:
  "RomBank (MBC1_WriteROM (NewMBC1 []) 0x2100 0x00) = 1
   \<and> RomBank (MBC1_WriteROM (MBC1_WriteROM (NewMBC1 []) 0x6000 0x00) 0x4000 0x20) = 0x21
   \<and> RomBank (MBC3_WriteROM (NewMBC3 []) 0x2100 0x00) = 1
   \<and> RomBank (MBC2_WriteROM (NewMBC2 []) 0x2100 0x00) = 1
   \<and> RomBank (MBC2_WriteROM (NewMBC2 []) 0x2100 0x00) \<noteq> 0
   \<and> RomBank (MBC3_WriteROM (NewMBC3 []) 0x2100 0x00) \<noteq> 0"
  using rom_bank_bump [where address = "0x2100" and address' = "0x4000" and val = "0x00"
      and rI = "NewMBC1 []" and rIII = "NewMBC3 []" and rII = "NewMBC2 []" and rom = "[]"
      and calls = "[CallWriteROM 0x2100 0x00]"
      and sII = "MBC2_WriteROM (NewMBC2 []) 0x2100 0x00"
      and sIII = "MBC3_WriteROM (NewMBC3 []) 0x2100 0x00"]
    rom_bank_bump [where address = "0x2100" and address' = "0x4000" and val = "0x20"
      and rI = "MBC1_WriteROM (NewMBC1 []) 0x6000 0x00"]
  by (simp add: MBC1_WriteROM_def MBC2_WriteROM_def MBC3_WriteROM_def updateRomBankIfZero_def
      NewMBC1_def NewMBC2_def NewMBC3_def)

text \<open>
  The claim as written fails for MBC5, which has no such rule: writing 0 to
  [0x2000,0x3000) on a fresh controller selects ROM bank 0.
\<close>

theorem mbc5_selects_bank_zero:
  "run (CartMBC5 (NewMBC5 [])) [CallWriteROM 0x2000 0x00]
     = Inr (CartMBC5 ((NewMBC5 [])\<lparr>RomBank := 0\<rparr>))"
  by (simp add: MBC5_WriteROM_def NewMBC5_def)

text \<open>
  An MBC1 can reach ROM bank 0 too: its upper bank bits come from \<open>value & 0xe0\<close>, so
  banks 0x80, 0xA0, 0xC0 and 0xE0 are selectable and are not bumped, and leaving
  ROM-banking mode masks such a bank to 0.
\<close>

lemma mbc1_bank_zero_reachable:
  "run (CartMBC1 (NewMBC1 []))
     [CallWriteROM 0x6000 0x00, CallWriteROM 0x4000 0x80, CallWriteROM 0x2000 0x00,
      CallWriteROM 0x6000 0x01]
     = Inr (CartMBC1 ((NewMBC1 [])\<lparr>RomBank := 0\<rparr>))"
  by (simp add: MBC1_WriteROM_def NewMBC1_def updateRomBankIfZero_def)

section \<open>Index bounds\<close>










lemma window_not_rom:
  assumes "0xA000 \<le> (a :: uint16)"
  shows "\<not> a < 0x4000" and "\<not> a < 0x8000"
  using assms by (simp_all add: word_le_nat_alt word_less_nat_alt)

subsection \<open>MBC1 stays within its bounds\<close>

lemma MBC1_WriteROM_Rom: "Rom (MBC1_WriteROM r a v) = Rom r" and
  MBC1_WriteROM_Ram: "Ram (MBC1_WriteROM r a v) = Ram r"
  by (simp_all add: MBC1_WriteROM_def updateRomBankIfZero_def Let_def)








subsection \<open>MBC2 stays within its bounds\<close>





subsection \<open>MBC5 stays within its bounds\<close>

lemma MBC5_WriteROM_frame: "Rom (MBC5_WriteROM r a v) = Rom r"
  by (simp add: MBC5_WriteROM_def)




subsection \<open>MBC3 stays within its bounds\<close>




subsection \<open>Every call in range returns\<close>







end
